theory Spec2Isabelle
  imports Complex_Main "HOL-Library.Sublist"
begin

section \<open>NBA prop dashboard: the pure functions of Player\_GUI.py\<close>

text \<open>
  The dashboard is one Python module. Its network and rendering calls belong to
  libraries; what is modelled here is the module's own logic: the season string, the
  season keys of the game-log requests, the requests of the defence-by-position table,
  the matchup multiplier, the slot of a position string, the over-line flags and the
  page handler.

  Numbers of the source are floats. They are modelled as exact reals: the band tests of
  the multiplier compare against 1.0, 0.5, -0.5 and -1.0 and return literal constants,
  so nothing below depends on rounding. What a division by zero gives is modelled as
  the source has it, see below. A raise of the source is the left summand of a result.
\<close>

datatype error = ZeroDivisionError | ValueError | IndexError | KeyError | TypeError | FetchError string

subsection \<open>Matchup multiplier (lines 67-78)\<close>

text \<open>
  The function has no test of \<open>std\<close> before it divides, and what Python's \<open>/\<close>
  does with a zero divisor depends on the operands. When all three arguments are
  built-in numbers it raises ZeroDivisionError. When one of them is a NumPy scalar, as
  are the cells, means and standard deviations the page takes from pandas, nothing is
  raised: the quotient is inf or -inf with the sign of the dividend, and nan for 0/0
  (the zero is +0.0, which is what a standard deviation can be). The kind of the
  operands is the first argument of the model. Comparisons with inf and -inf are those
  of the extended number line, and every comparison with nan is false.
  \<open>multiplier_bands\<close> is the if/elif chain of lines 69-78 on the z-score of line
  68.
\<close>

datatype operands = builtin_float | numpy_float64

datatype quotient = Finite real | PosInf | NegInf | NaN

fun quotient_ge :: "quotient \<Rightarrow> real \<Rightarrow> bool" where
  "quotient_ge (Finite x) c = (x \<ge> c)"
| "quotient_ge PosInf c = True"
| "quotient_ge NegInf c = False"
| "quotient_ge NaN c = False"

fun quotient_le :: "quotient \<Rightarrow> real \<Rightarrow> bool" where
  "quotient_le (Finite x) c = (x \<le> c)"
| "quotient_le PosInf c = False"
| "quotient_le NegInf c = True"
| "quotient_le NaN c = False"

definition truediv :: "operands \<Rightarrow> real \<Rightarrow> real \<Rightarrow> error + quotient" where
  "truediv kind a b =
     (if b \<noteq> 0 then Inr (Finite (a / b))
      else (case kind of
              builtin_float \<Rightarrow> Inl ZeroDivisionError
            | numpy_float64 \<Rightarrow> Inr (if a > 0 then PosInf else if a < 0 then NegInf else NaN)))"

definition multiplier_bands :: "quotient \<Rightarrow> real" where
  "multiplier_bands z =
     (if quotient_ge z 1.0 then 1.25
      else if quotient_ge z 0.5 then 1.15
      else if quotient_le z (-1.0) then 0.85
      else if quotient_le z (-0.5) then 0.75
      else 1.00)"

definition matchup_multiplier :: "operands \<Rightarrow> real \<Rightarrow> real \<Rightarrow> real \<Rightarrow> error + real" where
  "matchup_multiplier kind pts_allowed avg std =
     (case truediv kind (pts_allowed - avg) std of
        Inl e \<Rightarrow> Inl e
      | Inr z \<Rightarrow> Inr (multiplier_bands z))"

subsection \<open>Strings and decimal numerals\<close>

text \<open>
  \<open>str_int\<close> is Python's \<open>str\<close> on an integer: decimal digits, no padding, a
  minus sign for a negative number. \<open>last_chars k s\<close> is the slice \<open>s[-k:]\<close>,
  which is the whole string when it has fewer than \<open>k\<close> characters;
  \<open>s[:k]\<close> is \<open>take k s\<close>.
\<close>

definition digit_char :: "nat \<Rightarrow> char" where
  "digit_char d = ''0123456789'' ! d"

fun str_nat :: "nat \<Rightarrow> string" where
  "str_nat n = (if n < 10 then [digit_char n] else str_nat (n div 10) @ [digit_char (n mod 10)])"

declare str_nat.simps [simp del]

definition str_int :: "int \<Rightarrow> string" where
  "str_int i = (if i < 0 then CHR ''-'' # str_nat (nat (- i)) else str_nat (nat i))"

definition last_chars :: "nat \<Rightarrow> string \<Rightarrow> string" where
  "last_chars k s = drop (length s - k) s"

text \<open>
  \<open>py_int\<close> is Python's \<open>int\<close> on a string, for the strings that reach it here
  (digits and \<open>-\<close>): an optional sign followed by at least one decimal digit; anything
  else raises ValueError.
\<close>

definition digit_val :: "char \<Rightarrow> nat option" where
  "digit_val c = map_of (zip ''0123456789'' [0, 1, 2, 3, 4, 5, 6, 7, 8, 9]) c"

fun digits_value :: "nat \<Rightarrow> string \<Rightarrow> nat option" where
  "digits_value acc [] = Some acc"
| "digits_value acc (c # cs) =
     (case digit_val c of None \<Rightarrow> None | Some d \<Rightarrow> digits_value (10 * acc + d) cs)"

definition py_int :: "string \<Rightarrow> error + int" where
  "py_int s =
     (case s of
        [] \<Rightarrow> Inl ValueError
      | c # cs \<Rightarrow>
          if c = CHR ''-'' \<or> c = CHR ''+'' then
            (if cs = [] then Inl ValueError
             else (case digits_value 0 cs of
                     None \<Rightarrow> Inl ValueError
                   | Some n \<Rightarrow> Inr (if c = CHR ''-'' then - int n else int n)))
          else (case digits_value 0 s of
                  None \<Rightarrow> Inl ValueError
                | Some n \<Rightarrow> Inr (int n)))"

text \<open>\<open>str_contains sub s\<close> is Python's \<open>sub in s\<close> on strings: \<open>sub\<close> occurs in \<open>s\<close>.\<close>

fun str_contains :: "string \<Rightarrow> string \<Rightarrow> bool" where
  "str_contains sub [] = (sub = [])"
| "str_contains sub (c # cs) = (prefix sub (c # cs) \<or> str_contains sub cs)"

subsection \<open>Season string (lines 8-17)\<close>

text \<open>
  \<open>datetime.today()\<close> reads the clock; the date it returns is the argument
  \<open>today\<close> of the model.
\<close>

record date =
  year :: int
  month :: int
  day :: int

definition get_season_string :: "date \<Rightarrow> string" where
  "get_season_string today =
     (let (start_year, end_year) =
            (if month today \<ge> 10 then (year today, year today + 1)
             else (year today - 1, year today))
      in str_int start_year @ ''-'' @ last_chars 2 (str_int end_year))"

text \<open>
  Following the spec's words, "the last two digits" of a year: the tens digit and the
  units digit.
\<close>

definition last_two_digits :: "int \<Rightarrow> string" where
  "last_two_digits n = [digit_char (nat (n div 10 mod 10)), digit_char (nat (n mod 10))]"

subsection \<open>Game log of the last ten games (lines 30-41)\<close>

text \<open>
  A row of the frame that is returned keeps six columns. \<open>GAME_DATE\<close> is the date
  after \<open>pd.to_datetime\<close>, as a day number. The endpoint \<open>PlayerGameLog\<close> is a
  parameter: a function of the player and the season string that returns the rows or
  raises. The model returns the requests it made, in order, beside the result.
  Rows with equal dates keep their order in the model; the source leaves it to pandas.
\<close>

record game =
  GAME_DATE :: int
  MATCHUP :: string
  PTS :: real
  REB :: real
  AST :: real
  MINUTES :: real

definition get_last_10_games ::
  "(int \<Rightarrow> string \<Rightarrow> error + game list) \<Rightarrow> date \<Rightarrow> int
   \<Rightarrow> (int \<times> string) list \<times> (error + game list)" where
  "get_last_10_games PlayerGameLog today player_id =
     (let current_season = get_season_string today
      in case py_int (take 4 current_season) of
           Inl e \<Rightarrow> ([], Inl e)
         | Inr y \<Rightarrow>
            (let previous_season = str_int (y - 1) @ ''-'' @ take 2 current_season
             in case PlayerGameLog player_id current_season of
                  Inl e \<Rightarrow> ([(player_id, current_season)], Inl e)
                | Inr logs_current \<Rightarrow>
                   (case PlayerGameLog player_id previous_season of
                      Inl e \<Rightarrow>
                        ([(player_id, current_season), (player_id, previous_season)], Inl e)
                    | Inr logs_previous \<Rightarrow>
                        ([(player_id, current_season), (player_id, previous_season)],
                         Inr (take 10 (sort_key (\<lambda>g. - GAME_DATE g)
                                (logs_current @ logs_previous)))))))"

subsection \<open>Slot of a position string (lines 90-98)\<close>

definition simplify_slot :: "string \<Rightarrow> string" where
  "simplify_slot position =
     (if str_contains ''G'' position then ''PG''
      else if str_contains ''F'' position then ''SF''
      else if str_contains ''C'' position then ''C''
      else ''PG'')"

subsection \<open>Defence-by-position table (lines 43-65)\<close>

text \<open>
  The endpoint \<open>LeagueDashTeamStats\<close> is a parameter: a function of the request that
  returns the rows (team name, opponent points) or raises. The loop tags each row with
  its position; pandas' \<open>pivot\<close> with the renaming of the columns is the parameter
  \<open>pivot\<close>. As for the game log, the requests made are returned beside the result.
\<close>

record request =
  measure_type_detailed_defense :: string
  per_mode_detailed :: string
  player_position_abbreviation_nullable :: string
  season :: string

record dvp_row =
  TEAM_NAME :: string
  Guard_Pts_Allowed :: real
  Forward_Pts_Allowed :: real
  Center_Pts_Allowed :: real

fun dvp_loop ::
  "(request \<Rightarrow> error + (string \<times> real) list) \<Rightarrow> string list
   \<Rightarrow> request list \<times> (error + (string \<times> string \<times> real) list list)" where
  "dvp_loop LeagueDashTeamStats [] = ([], Inr [])"
| "dvp_loop LeagueDashTeamStats (pos # rest) =
     (let stats = \<lparr>measure_type_detailed_defense = ''Opponent'',
                   per_mode_detailed = ''PerGame'',
                   player_position_abbreviation_nullable = pos,
                   season = ''2024-25''\<rparr>
      in case LeagueDashTeamStats stats of
           Inl e \<Rightarrow> ([stats], Inl e)
         | Inr df \<Rightarrow>
            (case dvp_loop LeagueDashTeamStats rest of
               (reqs, r) \<Rightarrow>
                 (stats # reqs,
                  case r of
                    Inl e \<Rightarrow> Inl e
                  | Inr dfs \<Rightarrow> Inr (map (\<lambda>(team, pts). (team, pos, pts)) df # dfs))))"

definition get_dvp_table ::
  "(request \<Rightarrow> error + (string \<times> real) list)
   \<Rightarrow> ((string \<times> string \<times> real) list \<Rightarrow> error + dvp_row list)
   \<Rightarrow> request list \<times> (error + dvp_row list)" where
  "get_dvp_table LeagueDashTeamStats pivot =
     (let position_groups = [''G'', ''F'', ''C'']
      in case dvp_loop LeagueDashTeamStats position_groups of
           (reqs, Inl e) \<Rightarrow> (reqs, Inl e)
         | (reqs, Inr dfs) \<Rightarrow> (reqs, pivot (concat dfs)))"

subsection \<open>Matchup score of a slot (lines 80-88)\<close>

definition get_matchup_score ::
  "operands \<Rightarrow> dvp_row \<Rightarrow> string \<Rightarrow> real \<Rightarrow> real \<Rightarrow> real \<Rightarrow> real \<Rightarrow> real \<Rightarrow> real
   \<Rightarrow> error + real" where
  "get_matchup_score kind row slot
       guard_avg guard_std forward_avg forward_std center_avg center_std =
     (if slot \<in> set [''PG'', ''SG''] then
        matchup_multiplier kind (Guard_Pts_Allowed row) guard_avg guard_std
      else if slot \<in> set [''SF'', ''PF''] then
        matchup_multiplier kind (Forward_Pts_Allowed row) forward_avg forward_std
      else if slot = ''C'' then
        matchup_multiplier kind (Center_Pts_Allowed row) center_avg center_std
      else Inr 1.00)"

subsection \<open>Charts and percentages over the line (lines 125-170)\<close>

text \<open>
  \<open>column stat\<close> is \<open>df[stat]\<close> read as numbers: the four statistics are numeric
  columns; comparing the date or matchup column with a number raises TypeError and any
  other name raises KeyError.
\<close>

definition column :: "string \<Rightarrow> error + (game \<Rightarrow> real)" where
  "column stat =
     (if stat = ''PTS'' then Inr PTS
      else if stat = ''REB'' then Inr REB
      else if stat = ''AST'' then Inr AST
      else if stat = ''MIN'' then Inr MINUTES
      else if stat = ''GAME_DATE'' \<or> stat = ''MATCHUP'' then Inl TypeError
      else Inl KeyError)"

text \<open>
  Of the chart, the model keeps what the source computes: the column \<open>OverLine\<close>
  written into the frame, the bars with the colour chosen by that column, the upper end
  of the y axis (none for an empty frame, where pandas' \<open>max\<close> is nan), the rule
  at the line, the labels and the title.
\<close>

record chart =
  OverLine :: "bool list"
  bars :: "(int \<times> real \<times> string) list"
  y_max :: "real option"
  rule_y :: real
  labels :: "(int \<times> real) list"
  title :: string

definition stat_chart :: "game list \<Rightarrow> string \<Rightarrow> real \<Rightarrow> error + chart" where
  "stat_chart df stat line_value =
     (case column stat of
        Inl e \<Rightarrow> Inl e
      | Inr f \<Rightarrow>
         (let over = map (\<lambda>g. f g > line_value) df;
              max_val = (if df = [] then None else Some (Max (set (map f df))))
          in Inr \<lparr>OverLine = over,
                  bars = map (\<lambda>(g, ov). (GAME_DATE g, f g, if ov then ''green'' else ''red''))
                           (zip df over),
                  y_max = map_option (\<lambda>m. m * 1.2) max_val,
                  rule_y = line_value,
                  labels = map (\<lambda>g. (GAME_DATE g, f g)) df,
                  title = stat @ '' over Last 10 Games''\<rparr>))"

text \<open>
  The count of \<open>pct_above\<close> is a NumPy integer, whose division by zero gives nan and
  no exception: the result for an empty frame is \<open>None\<close>.
\<close>

definition pct_above :: "game list \<Rightarrow> string \<Rightarrow> real \<Rightarrow> error + real option" where
  "pct_above df stat line =
     (case column stat of
        Inl e \<Rightarrow> Inl e
      | Inr f \<Rightarrow>
          Inr (if length df = 0 then None
               else Some (real (length (filter (\<lambda>g. f g > line) df)) / real (length df) * 100)))"

subsection \<open>Page handler (lines 172-275)\<close>

text \<open>
  A call of a Streamlit function shows something at once; the model collects these
  calls in order. A step returns what it has shown and either an exception or its
  normal end. The widgets' values are arguments, and so are the library calls: the
  player search, the three endpoints, and pandas' \<open>pivot\<close>, \<open>mean\<close> and
  \<open>std\<close>. Formatted texts are kept as their parts; the pictograph of the metric's
  label is left out.
\<close>

datatype ui =
    St_metric string real
  | St_warning string
  | St_image string string
  | St_success string
  | St_dataframe "game list"
  | St_markdown string
  | St_altair_chart chart
  | St_caption "real option" real string
  | St_error error
  | St_error_text string

definition team_map :: "(string \<times> string) list" where
  "team_map =
     [(''ATL'', ''Atlanta Hawks''), (''BOS'', ''Boston Celtics''), (''BKN'', ''Brooklyn Nets''),
      (''CHA'', ''Charlotte Hornets''), (''CHI'', ''Chicago Bulls''),
      (''CLE'', ''Cleveland Cavaliers''), (''DAL'', ''Dallas Mavericks''),
      (''DEN'', ''Denver Nuggets''), (''DET'', ''Detroit Pistons''),
      (''GSW'', ''Golden State Warriors''), (''HOU'', ''Houston Rockets''),
      (''IND'', ''Indiana Pacers''), (''LAC'', ''LA Clippers''),
      (''LAL'', ''Los Angeles Lakers''), (''MEM'', ''Memphis Grizzlies''),
      (''MIA'', ''Miami Heat''), (''MIL'', ''Milwaukee Bucks''),
      (''MIN'', ''Minnesota Timberwolves''), (''NOP'', ''New Orleans Pelicans''),
      (''NYK'', ''New York Knicks''), (''OKC'', ''Oklahoma City Thunder''),
      (''ORL'', ''Orlando Magic''), (''PHI'', ''Philadelphia 76ers''),
      (''PHX'', ''Phoenix Suns''), (''POR'', ''Portland Trail Blazers''),
      (''SAC'', ''Sacramento Kings''), (''SAS'', ''San Antonio Spurs''),
      (''TOR'', ''Toronto Raptors''), (''UTA'', ''Utah Jazz''),
      (''WAS'', ''Washington Wizards'')]"

text \<open>The logo addresses differ in the team number only.\<close>

definition team_logos :: "(string \<times> string) list" where
  "team_logos =
     map (\<lambda>(abbr, num). (abbr, ''https://cdn.nba.com/logos/nba/'' @ num @ ''/global/L/logo.svg''))
       [(''ATL'', ''1610612737''), (''BOS'', ''1610612738''), (''BKN'', ''1610612751''),
        (''CHA'', ''1610612766''), (''CHI'', ''1610612741''), (''CLE'', ''1610612739''),
        (''DAL'', ''1610612742''), (''DEN'', ''1610612743''), (''DET'', ''1610612765''),
        (''GSW'', ''1610612744''), (''HOU'', ''1610612745''), (''IND'', ''1610612754''),
        (''LAC'', ''1610612746''), (''LAL'', ''1610612747''), (''MEM'', ''1610612763''),
        (''MIA'', ''1610612748''), (''MIL'', ''1610612749''), (''MIN'', ''1610612750''),
        (''NOP'', ''1610612740''), (''NYK'', ''1610612752''), (''OKC'', ''1610612760''),
        (''ORL'', ''1610612753''), (''PHI'', ''1610612755''), (''PHX'', ''1610612756''),
        (''POR'', ''1610612757''), (''SAC'', ''1610612758''), (''SAS'', ''1610612759''),
        (''TOR'', ''1610612761''), (''UTA'', ''1610612762''), (''WAS'', ''1610612764'')]"

text \<open>
  Lines 195-219: the opponent's row and the multiplier, or the warning. The row's cells
  and the league's means and standard deviations come from pandas, so the operands of
  the multiplier are NumPy scalars.
\<close>

definition show_matchup ::
  "string \<Rightarrow> dvp_row list \<Rightarrow> string \<Rightarrow> real \<Rightarrow> real \<Rightarrow> real \<Rightarrow> real \<Rightarrow> real \<Rightarrow> real
   \<Rightarrow> ui list \<times> (error + unit)" where
  "show_matchup opponent_abbr dvp_table slot
       guard_avg guard_std forward_avg forward_std center_avg center_std =
     (case map_of team_map opponent_abbr of
        None \<Rightarrow> ([St_warning ''Could not find DvP data for selected opponent.''], Inr ())
      | Some team_name \<Rightarrow>
          if team_name \<noteq> [] \<and> team_name \<in> set (map TEAM_NAME dvp_table) then
            (case filter (\<lambda>r. TEAM_NAME r = team_name) dvp_table of
               [] \<Rightarrow> ([], Inl IndexError)
             | dvp_row # _ \<Rightarrow>
                (case get_matchup_score numpy_float64 dvp_row slot guard_avg guard_std
                        forward_avg forward_std center_avg center_std of
                   Inl e \<Rightarrow> ([], Inl e)
                 | Inr matchup_score \<Rightarrow>
                     ([St_metric ''Matchup Multiplier'' matchup_score], Inr ())))
          else ([St_warning ''Could not find DvP data for selected opponent.''], Inr ()))"

definition lower :: "string \<Rightarrow> string" where
  "lower s =
     map (\<lambda>c. case map_of (zip ''ABCDEFGHIJKLMNOPQRSTUVWXYZ'' ''abcdefghijklmnopqrstuvwxyz'') c of
                 None \<Rightarrow> c | Some l \<Rightarrow> l) s"

text \<open>Lines 268-271: heading, chart and caption of each statistic.\<close>

fun show_stats :: "game list \<Rightarrow> (string \<times> real) list \<Rightarrow> ui list \<times> (error + unit)" where
  "show_stats stats_df [] = ([], Inr ())"
| "show_stats stats_df ((stat, line) # rest) =
     (case stat_chart stats_df stat line of
        Inl e \<Rightarrow> ([St_markdown (''### '' @ stat)], Inl e)
      | Inr ch \<Rightarrow>
         (case pct_above stats_df stat line of
            Inl e \<Rightarrow> ([St_markdown (''### '' @ stat), St_altair_chart ch], Inl e)
          | Inr pct \<Rightarrow>
             (case show_stats stats_df rest of
                (out, r) \<Rightarrow>
                  (St_markdown (''### '' @ stat) # St_altair_chart ch
                     # St_caption pct line (lower stat) # out, r))))"

text \<open>Lines 221-271: pictures, game table and charts.\<close>

definition show_player ::
  "int \<Rightarrow> string \<Rightarrow> game list \<Rightarrow> real \<Rightarrow> real \<Rightarrow> real \<Rightarrow> real \<Rightarrow> ui list \<times> (error + unit)" where
  "show_player player_id player_name stats_df pts_line reb_line ast_line min_line =
     (let headshot_url = ''https://cdn.nba.com/headshots/nba/latest/1040x760/''
                           @ str_int player_id @ ''.png''
      in case stats_df of
           [] \<Rightarrow> ([], Inl IndexError)
         | first # _ \<Rightarrow>
            (let team_abbr = takeWhile (\<lambda>c. c \<noteq> CHR '' '') (MATCHUP first);
                 logo = (case map_of team_logos team_abbr of
                           None \<Rightarrow> []
                         | Some logo_url \<Rightarrow>
                             if logo_url \<noteq> [] then [St_image logo_url (team_abbr @ '' Logo'')]
                             else []);
                 shown = [St_image headshot_url player_name] @ logo
                         @ [St_success (''Showing last 10 games for '' @ player_name),
                            St_dataframe stats_df]
             in case show_stats stats_df
                       [(''PTS'', pts_line), (''REB'', reb_line),
                        (''AST'', ast_line), (''MIN'', min_line)] of
                  (out, r) \<Rightarrow> (shown @ out, r)))"

text \<open>
  Lines 195-271 in sequence, and the handler's \<open>except Exception\<close> around them
  (lines 273-275): what was shown before an exception stays, and the error message
  follows.
\<close>

definition show_all ::
  "string \<Rightarrow> dvp_row list \<Rightarrow> string \<Rightarrow> real \<Rightarrow> real \<Rightarrow> real \<Rightarrow> real \<Rightarrow> real \<Rightarrow> real
   \<Rightarrow> int \<Rightarrow> string \<Rightarrow> game list \<Rightarrow> real \<Rightarrow> real \<Rightarrow> real \<Rightarrow> real
   \<Rightarrow> ui list \<times> (error + unit)" where
  "show_all opponent_abbr dvp_table slot
       guard_avg guard_std forward_avg forward_std center_avg center_std
       player_id player_name stats_df pts_line reb_line ast_line min_line =
     (case show_matchup opponent_abbr dvp_table slot
             guard_avg guard_std forward_avg forward_std center_avg center_std of
        (out, Inl e) \<Rightarrow> (out, Inl e)
      | (out, Inr _) \<Rightarrow>
          (case show_player player_id player_name stats_df
                  pts_line reb_line ast_line min_line of
             (out', r) \<Rightarrow> (out @ out', r)))"

definition except_Exception :: "ui list \<times> (error + unit) \<Rightarrow> ui list" where
  "except_Exception run =
     (case run of
        (out, Inl e) \<Rightarrow> out @ [St_error e]
      | (out, Inr _) \<Rightarrow> out)"

text \<open>
  Lines 172-275, run when the button is pressed: the player search (lines 20-23, where
  the first match wins and no match or the identifier 0 counts as not found), the three
  fetches, the league's means and standard deviations of the table that get\_dvp\_table
  returned (lines 187-193), and the display. \<open>CommonPlayerInfo\<close> gives the position
  string of lines 26-28.
\<close>

definition fetch_stats ::
  "(string \<Rightarrow> int list) \<Rightarrow> (int \<Rightarrow> string \<Rightarrow> error + game list) \<Rightarrow> (int \<Rightarrow> error + string)
   \<Rightarrow> (request \<Rightarrow> error + (string \<times> real) list)
   \<Rightarrow> ((string \<times> string \<times> real) list \<Rightarrow> error + dvp_row list)
   \<Rightarrow> (real list \<Rightarrow> real) \<Rightarrow> (real list \<Rightarrow> real)
   \<Rightarrow> date \<Rightarrow> string \<Rightarrow> string \<Rightarrow> real \<Rightarrow> real \<Rightarrow> real \<Rightarrow> real \<Rightarrow> ui list" where
  "fetch_stats find_players_by_full_name PlayerGameLog CommonPlayerInfo LeagueDashTeamStats
       pivot series_mean series_std today player_name opponent_abbr
       pts_line reb_line ast_line min_line =
     (case find_players_by_full_name player_name of
        [] \<Rightarrow> [St_error_text ''Player not found. Please check the name.'']
      | player_id # _ \<Rightarrow>
          if player_id = 0 then [St_error_text ''Player not found. Please check the name.'']
          else except_Exception
            (case snd (get_last_10_games PlayerGameLog today player_id) of
               Inl e \<Rightarrow> ([], Inl e)
             | Inr stats_df \<Rightarrow>
                (case CommonPlayerInfo player_id of
                   Inl e \<Rightarrow> ([], Inl e)
                 | Inr position \<Rightarrow>
                    (let slot = simplify_slot position
                     in case snd (get_dvp_table LeagueDashTeamStats pivot) of
                          Inl e \<Rightarrow> ([], Inl e)
                        | Inr dvp_table \<Rightarrow>
                            show_all opponent_abbr dvp_table slot
                              (series_mean (map Guard_Pts_Allowed dvp_table))
                              (series_std (map Guard_Pts_Allowed dvp_table))
                              (series_mean (map Forward_Pts_Allowed dvp_table))
                              (series_std (map Forward_Pts_Allowed dvp_table))
                              (series_mean (map Center_Pts_Allowed dvp_table))
                              (series_std (map Center_Pts_Allowed dvp_table))
                              player_id player_name stats_df
                              pts_line reb_line ast_line min_line))))"

section \<open>Theorems\<close>

subsection \<open>Matchup multiplier\<close>

lemma matchup_multiplier_nonzero:
  "std \<noteq> 0 \<Longrightarrow>
   matchup_multiplier kind pts_allowed avg std
   = Inr (multiplier_bands (Finite ((pts_allowed - avg) / std)))"
  by (simp add: matchup_multiplier_def truediv_def)

lemma matchup_multiplier_zero:
  "matchup_multiplier builtin_float pts_allowed avg 0 = Inl ZeroDivisionError"
  "matchup_multiplier numpy_float64 pts_allowed avg 0 =
     Inr (if pts_allowed > avg then 1.25 else if pts_allowed < avg then 0.85 else 1.00)"
  by (simp_all add: matchup_multiplier_def truediv_def multiplier_bands_def)

text \<open>
  Claim C1. For every pts\_allowed, avg and std with std \<noteq> 0, matchup\_multiplier
  returns the band table of section 4.1 at z = (pts\_allowed - avg) / std:
  1.25 if z \<ge> 1.0; 1.15 if 0.5 \<le> z < 1.0; 1.00 if -0.5 < z < 0.5;
  0.75 if -1.0 < z \<le> -0.5; 0.85 if z \<le> -1.0, each boundary closed or open as
  listed; in particular every input with z = 1.2 yields 1.25. This holds for built-in
  numbers and for NumPy scalars alike.
\<close>

theorem matchup_multiplier_band_table:
  fixes pts_allowed avg std :: real
  assumes "std \<noteq> 0"
  shows "(1.0 \<le> (pts_allowed - avg) / std \<longrightarrow>
            matchup_multiplier kind pts_allowed avg std = Inr 1.25)
       \<and> (0.5 \<le> (pts_allowed - avg) / std \<and> (pts_allowed - avg) / std < 1.0 \<longrightarrow>
            matchup_multiplier kind pts_allowed avg std = Inr 1.15)
       \<and> (-0.5 < (pts_allowed - avg) / std \<and> (pts_allowed - avg) / std < 0.5 \<longrightarrow>
            matchup_multiplier kind pts_allowed avg std = Inr 1.00)
       \<and> (-1.0 < (pts_allowed - avg) / std \<and> (pts_allowed - avg) / std \<le> -0.5 \<longrightarrow>
            matchup_multiplier kind pts_allowed avg std = Inr 0.75)
       \<and> ((pts_allowed - avg) / std \<le> -1.0 \<longrightarrow>
            matchup_multiplier kind pts_allowed avg std = Inr 0.85)
       \<and> ((pts_allowed - avg) / std = 1.2 \<longrightarrow>
            matchup_multiplier kind pts_allowed avg std = Inr 1.25)"
proof -
  define z where "z = (pts_allowed - avg) / std"
  have r: "matchup_multiplier kind pts_allowed avg std = Inr (multiplier_bands (Finite z))"
    unfolding z_def using assms by (rule matchup_multiplier_nonzero)
  show ?thesis
    unfolding r z_def [symmetric] by (simp add: multiplier_bands_def)
qed

theorem matchup_multiplier_band_table_witness:
  "(10::real) \<noteq> 0 \<and> (112 - 100) / 10 = (1.2::real)
   \<and> matchup_multiplier builtin_float 112 100 10 = Inr 1.25
   \<and> matchup_multiplier numpy_float64 112 100 10 = Inr 1.25
   \<and> matchup_multiplier numpy_float64 107 100 10 = Inr 1.15
   \<and> matchup_multiplier numpy_float64 95 100 10 = Inr 0.75
   \<and> matchup_multiplier numpy_float64 90 100 10 = Inr 0.85"
  using matchup_multiplier_band_table [of 10 112 100 builtin_float]
    matchup_multiplier_band_table [of 10 112 100 numpy_float64]
    matchup_multiplier_band_table [of 10 107 100 numpy_float64]
    matchup_multiplier_band_table [of 10 95 100 numpy_float64]
    matchup_multiplier_band_table [of 10 90 100 numpy_float64]
  by simp

text \<open>
  Claim C2, as stated: the test z \<le> -1.0 comes after the test z \<le> -0.5, so no input
  with std \<noteq> 0 makes matchup\_multiplier return 0.85. The source tests z \<le> -1.0
  first (line 73, before line 75), and 0.85 is returned: at
  pts\_allowed = 90, avg = 100, std = 10 the z-score is -1.
\<close>

theorem matchup_multiplier_returns_085_counterexample:
  "(10::real) \<noteq> 0 \<and> matchup_multiplier builtin_float 90 100 10 = Inr 0.85
   \<and> matchup_multiplier numpy_float64 90 100 10 = Inr 0.85"
  by (simp add: matchup_multiplier_def truediv_def multiplier_bands_def)

text \<open>
  Claim C2, amended. The test z \<le> -1.0 is made before the test z \<le> -0.5, so the
  branch returning 0.85 is reachable: for std \<noteq> 0, matchup\_multiplier returns 0.85
  exactly when z = (pts\_allowed - avg) / std \<le> -1.0.
\<close>

theorem matchup_multiplier_085_iff:
  fixes pts_allowed avg std :: real
  assumes "std \<noteq> 0"
  shows "matchup_multiplier kind pts_allowed avg std = Inr 0.85
         \<longleftrightarrow> (pts_allowed - avg) / std \<le> -1.0"
proof -
  define z where "z = (pts_allowed - avg) / std"
  have r: "matchup_multiplier kind pts_allowed avg std = Inr (multiplier_bands (Finite z))"
    unfolding z_def using assms by (rule matchup_multiplier_nonzero)
  show ?thesis
    unfolding r z_def [symmetric] by (simp add: multiplier_bands_def)
qed

theorem matchup_multiplier_085_iff_witness:
  "(4::real) \<noteq> 0 \<and> (94 - 100) / (4::real) \<le> -1.0
   \<and> matchup_multiplier builtin_float 94 100 4 = Inr 0.85
   \<and> matchup_multiplier numpy_float64 94 100 4 = Inr 0.85"
  using matchup_multiplier_085_iff [of 4 builtin_float 94 100]
    matchup_multiplier_085_iff [of 4 numpy_float64 94 100]
  by simp

text \<open>
  Claim C3. The five bands are symmetric around 1.00: for every std > 0 and every
  deviation d \<ge> 0, matchup\_multiplier(avg + d*std, avg, std) - 1.00
  = 1.00 - matchup\_multiplier(avg - d*std, avg, std). The source pairs the upper
  bands 1.25 (z \<ge> 1.0) and 1.15 (z \<ge> 0.5) with the lower bands 0.85 (z \<le> -1.0)
  and 0.75 (z \<le> -0.5): the two lower constants are exchanged, so one standard
  deviation above the mean adds 0.25 and one below takes off only 0.15. The theorem
  evaluates the source at avg = 100, std = 10, d = 1, for both kinds of operands.
\<close>

theorem matchup_multiplier_asymmetric_at_one_std:
  "matchup_multiplier builtin_float (100 + 1 * 10) 100 10 = Inr 1.25
   \<and> matchup_multiplier builtin_float (100 - 1 * 10) 100 10 = Inr 0.85
   \<and> matchup_multiplier numpy_float64 (100 + 1 * 10) 100 10 = Inr 1.25
   \<and> matchup_multiplier numpy_float64 (100 - 1 * 10) 100 10 = Inr 0.85
   \<and> (1.25::real) - 1.00 \<noteq> 1.00 - 0.85"
  by (simp add: matchup_multiplier_def truediv_def multiplier_bands_def)

subsection \<open>Decimal numerals\<close>

lemma str_nat_small: "n < 10 \<Longrightarrow> str_nat n = [digit_char n]"
  by (simp add: str_nat.simps)

lemma str_nat_big: "10 \<le> n \<Longrightarrow> str_nat n = str_nat (n div 10) @ [digit_char (n mod 10)]"
  by (simp add: str_nat.simps)

lemma str_nat_snoc: "\<exists>pre. str_nat m = pre @ [digit_char (m mod 10)]"
proof (cases "m < 10")
  case True
  then show ?thesis by (simp add: str_nat_small)
next
  case False
  then show ?thesis by (simp add: str_nat_big)
qed

lemma last_chars_str_nat:
  assumes "10 \<le> n"
  shows "last_chars 2 (str_nat n) = [digit_char (n div 10 mod 10), digit_char (n mod 10)]"
proof -
  obtain pre where pre: "str_nat (n div 10) = pre @ [digit_char (n div 10 mod 10)]"
    using str_nat_snoc by blast
  have "str_nat n = pre @ [digit_char (n div 10 mod 10), digit_char (n mod 10)]"
    using assms pre by (simp add: str_nat_big)
  then show ?thesis by (simp add: last_chars_def)
qed

lemma last_chars_str_int:
  assumes "10 \<le> e"
  shows "last_chars 2 (str_int e) = last_two_digits e"
proof -
  have n: "10 \<le> nat e" using assms by simp
  have d1: "nat e div 10 mod 10 = nat (e div 10 mod 10)"
    using assms by (simp add: nat_div_distrib nat_mod_distrib)
  have d0: "nat e mod 10 = nat (e mod 10)"
    using assms by (simp add: nat_mod_distrib)
  show ?thesis
    using assms last_chars_str_nat [OF n]
    by (simp add: str_int_def last_two_digits_def d1 d0)
qed

lemma str_nat_four:
  assumes "1000 \<le> n" "n \<le> 9999"
  shows "str_nat n = [digit_char (n div 1000), digit_char (n div 100 mod 10),
                      digit_char (n div 10 mod 10), digit_char (n mod 10)]"
proof -
  have a: "10 \<le> n" "10 \<le> n div 10" "10 \<le> n div 10 div 10" "n div 10 div 10 div 10 < 10"
    using assms by simp_all
  have b: "n div 10 div 10 = n div 100" "n div 100 div 10 = n div 1000"
    by (simp_all add: div_mult2_eq [symmetric])
  have "str_nat n = [digit_char (n div 10 div 10 div 10), digit_char (n div 10 div 10 mod 10),
                      digit_char (n div 10 mod 10), digit_char (n mod 10)]"
    using a by (simp add: str_nat_big str_nat_small)
  then show ?thesis by (simp only: b)
qed

lemma digit_val_digit_char: "d < 10 \<Longrightarrow> digit_val (digit_char d) = Some d"
proof -
  assume "d < 10"
  then have "d \<in> {0, 1, 2, 3, 4, 5, 6, 7, 8, 9}" by auto
  then show ?thesis
    by (auto simp: digit_val_def digit_char_def)
qed

lemma digit_char_not_sign: "d < 10 \<Longrightarrow> digit_char d \<noteq> CHR ''-'' \<and> digit_char d \<noteq> CHR ''+''"
proof -
  assume "d < 10"
  then have "d \<in> {0, 1, 2, 3, 4, 5, 6, 7, 8, 9}" by auto
  then show ?thesis
    by (auto simp: digit_char_def)
qed

lemma digit_char_inj: "a < 10 \<Longrightarrow> b < 10 \<Longrightarrow> digit_char a = digit_char b \<longleftrightarrow> a = b"
  using digit_val_digit_char by (metis option.inject)

lemma four_digits_value:
  fixes n :: nat
  shows "1000 * (n div 1000) + 100 * (n div 100 mod 10) + 10 * (n div 10 mod 10) + n mod 10 = n"
proof -
  have a: "n div 10 = 10 * (n div 100) + n div 10 mod 10"
    using div_mult_mod_eq [of "n div 10" 10] by (simp add: div_mult2_eq [symmetric])
  have b: "n div 100 = 10 * (n div 1000) + n div 100 mod 10"
    using div_mult_mod_eq [of "n div 100" 10] by (simp add: div_mult2_eq [symmetric])
  have c: "n = 10 * (n div 10) + n mod 10" by simp
  show ?thesis using a b c by linarith
qed

lemma digits_value_four:
  assumes "1000 \<le> n" "n \<le> 9999"
  shows "digits_value 0 (str_nat n) = Some n"
proof -
  have lt: "n div 1000 < 10" using assms by simp
  show ?thesis
    unfolding str_nat_four [OF assms]
    using four_digits_value [of n] by (simp add: digit_val_digit_char lt)
qed

lemma py_int_str_nat_four:
  assumes "1000 \<le> n" "n \<le> 9999"
  shows "py_int (str_nat n) = Inr (int n)"
proof -
  have lt: "n div 1000 < 10" using assms by simp
  obtain c cs where s: "str_nat n = c # cs" and c: "c = digit_char (n div 1000)"
    using str_nat_four [OF assms] by simp
  have ns: "c \<noteq> CHR ''-''" "c \<noteq> CHR ''+''"
    using digit_char_not_sign [OF lt] c by simp_all
  have "py_int (c # cs) = Inr (int n)"
    using digits_value_four [OF assms] ns by (simp add: py_int_def s)
  then show ?thesis by (simp add: s)
qed

lemma py_int_str_int_four:
  assumes "1000 \<le> y" "y \<le> 9999"
  shows "py_int (str_int y) = Inr y" and "length (str_int y) = 4"
proof -
  have n: "1000 \<le> nat y" "nat y \<le> 9999" using assms by simp_all
  show "py_int (str_int y) = Inr y"
    using assms py_int_str_nat_four [OF n] by (simp add: str_int_def)
  show "length (str_int y) = 4"
    using assms str_nat_four [OF n] by (simp add: str_int_def)
qed

lemma take_two_str_int:
  assumes "1000 \<le> y" "y \<le> 9999"
  shows "take 2 (str_int y @ rest)
         = [digit_char (nat y div 1000), digit_char (nat y div 100 mod 10)]"
proof -
  have n: "1000 \<le> nat y" "nat y \<le> 9999" using assms by simp_all
  show ?thesis using assms str_nat_four [OF n] by (simp add: str_int_def)
qed

lemma century_eq_last_two:
  assumes "1000 \<le> y" "y \<le> 9999"
  shows "take 2 (str_int y @ rest) = last_two_digits y \<longleftrightarrow> y div 100 = y mod 100"
proof -
  define n where "n = nat y"
  have n: "1000 \<le> n" "n \<le> 9999" using assms by (simp_all add: n_def)
  have y: "y = int n" using assms by (simp add: n_def)
  have l: "last_two_digits y = [digit_char (n div 10 mod 10), digit_char (n mod 10)]"
    unfolding last_two_digits_def y
    by (simp add: nat_div_distrib nat_mod_distrib zdiv_int [symmetric] zmod_int [symmetric]
        del: of_nat_div of_nat_mod)
  have lt: "n div 1000 < 10" "n div 100 mod 10 < 10" "n div 10 mod 10 < 10" "n mod 10 < 10"
    using n by simp_all
  have "take 2 (str_int y @ rest) = last_two_digits y
        \<longleftrightarrow> n div 1000 = n div 10 mod 10 \<and> n div 100 mod 10 = n mod 10"
    unfolding l take_two_str_int [OF assms] n_def [symmetric]
    by (simp add: digit_char_inj lt)
  also have "\<dots> \<longleftrightarrow> n div 100 = n mod 100"
  proof -
    have a: "n div 100 = 10 * (n div 1000) + n div 100 mod 10"
      using div_mult_mod_eq [of "n div 100" 10] by (simp add: div_mult2_eq [symmetric])
    have b: "n mod 100 = 10 * (n div 10 mod 10) + n mod 10"
      using mod_mult2_eq [of n 10 10] by simp
    show ?thesis using a b lt by auto
  qed
  also have "\<dots> \<longleftrightarrow> y div 100 = y mod 100"
    unfolding y by (metis of_nat_eq_iff of_nat_numeral zdiv_int zmod_int)
  finally show ?thesis .
qed

subsection \<open>Season string\<close>

lemma get_season_string_chars:
  "get_season_string today =
     (if 10 \<le> month today
      then str_int (year today) @ ''-'' @ last_chars 2 (str_int (year today + 1))
      else str_int (year today - 1) @ ''-'' @ last_chars 2 (str_int (year today)))"
  by (simp add: get_season_string_def)

text \<open>
  Claim C5. get\_season\_string returns the current season string: for a date in
  October or later it is the year, a hyphen and the last two digits of year + 1; for a
  date before October it is year - 1, a hyphen and the last two digits of the year.
  The suffix is the last two characters of the decimal numeral of the end year; from
  the year 10 on these are its tens and units digits.
\<close>

theorem get_season_string_spec:
  "get_season_string today =
     (if 10 \<le> month today
      then str_int (year today) @ ''-'' @ last_chars 2 (str_int (year today + 1))
      else str_int (year today - 1) @ ''-'' @ last_chars 2 (str_int (year today)))
   \<and> (10 \<le> year today \<longrightarrow>
        get_season_string today =
          (if 10 \<le> month today
           then str_int (year today) @ ''-'' @ last_two_digits (year today + 1)
           else str_int (year today - 1) @ ''-'' @ last_two_digits (year today)))"
  by (simp add: get_season_string_chars last_chars_str_int)

theorem get_season_string_spec_witness:
  "(10::int) \<le> 2026
   \<and> get_season_string \<lparr>year = 2026, month = 11, day = 3\<rparr> = ''2026-27''
   \<and> get_season_string \<lparr>year = 2026, month = 9, day = 30\<rparr> = ''2025-26''"
  using get_season_string_spec [of "\<lparr>year = 2026, month = 11, day = 3\<rparr>"]
    get_season_string_spec [of "\<lparr>year = 2026, month = 9, day = 30\<rparr>"]
  by (simp add: last_two_digits_def digit_char_def str_int_def str_nat_big str_nat_small
      last_chars_def)

subsection \<open>Season keys of the game-log requests\<close>

lemma get_last_10_games_requests:
  assumes cur: "get_season_string today = str_int y @ ''-'' @ zz"
    and y: "1000 \<le> y" "y \<le> 9999"
    and ok: "PlayerGameLog player_id (get_season_string today) = Inr logs_current"
  shows "fst (get_last_10_games PlayerGameLog today player_id) =
           [(player_id, get_season_string today),
            (player_id, str_int (y - 1) @ ''-'' @ take 2 (get_season_string today))]"
proof -
  have "take 4 (get_season_string today) = str_int y"
    using py_int_str_int_four(2) [OF y] by (simp add: cur)
  then have p: "py_int (take 4 (get_season_string today)) = Inr y"
    using py_int_str_int_four(1) [OF y] by simp
  show ?thesis
    unfolding get_last_10_games_def Let_def p using ok
    by (simp split: sum.splits)
qed

text \<open>
  Claim C8, as stated: for every current season "YYYY-ZZ" the previous-season string is
  str(YYYY - 1), a hyphen and the first two characters of the current string, so the
  second request is keyed by a string whose suffix is not the last two digits of the
  previous season's end year. The first part holds; the conclusion fails when the
  century digits of YYYY are also its last two digits: in November 2020 the current
  season is "2020-21", the second key is "2019-20", and "20" is the last two digits
  of the end year 2020.
\<close>

theorem previous_season_2020_counterexample:
  "fst (get_last_10_games (\<lambda>p s. Inr []) \<lparr>year = 2020, month = 11, day = 3\<rparr> 2544)
     = [(2544, ''2020-21''), (2544, ''2019-20'')]
   \<and> last_chars 2 ''2019-20'' = last_two_digits 2020"
  by (simp add: get_last_10_games_def get_season_string_def py_int_def digit_val_def
      last_two_digits_def digit_char_def str_int_def str_nat_big str_nat_small last_chars_def)

text \<open>
  Claim C8, amended. For every current season "YYYY-ZZ" returned by
  get\_season\_string (1000 \<le> YYYY \<le> 9999) whose game log is fetched, the second
  request of get\_last\_10\_games is keyed by str(YYYY - 1), a hyphen and the first
  two characters of the current string (the century digits), e.g. "2023-20" when the
  current season is "2024-25"; that suffix equals the last two digits of the previous
  season's end year YYYY exactly when YYYY div 100 = YYYY mod 100 (as for 2020), and
  differs from them for every other year.
\<close>

theorem previous_season_key:
  assumes "get_season_string today = str_int y @ ''-'' @ zz"
    and "1000 \<le> y" and "y \<le> 9999"
    and "PlayerGameLog player_id (get_season_string today) = Inr logs_current"
  shows "fst (get_last_10_games PlayerGameLog today player_id) =
           [(player_id, get_season_string today),
            (player_id, str_int (y - 1) @ ''-'' @ take 2 (get_season_string today))]
         \<and> (take 2 (get_season_string today) = last_two_digits y
              \<longleftrightarrow> y div 100 = y mod 100)"
proof -
  have r: "fst (get_last_10_games PlayerGameLog today player_id) =
             [(player_id, get_season_string today),
              (player_id, str_int (y - 1) @ ''-'' @ take 2 (get_season_string today))]"
    using assms by (rule get_last_10_games_requests)
  have c: "take 2 (get_season_string today) = last_two_digits y \<longleftrightarrow> y div 100 = y mod 100"
    unfolding assms(1) using assms(2,3) by (rule century_eq_last_two)
  show ?thesis using r c by (rule conjI)
qed

theorem previous_season_key_witness:
  "get_season_string \<lparr>year = 2024, month = 11, day = 3\<rparr> = str_int 2024 @ ''-'' @ ''25''
   \<and> (1000::int) \<le> 2024 \<and> (2024::int) \<le> 9999
   \<and> fst (get_last_10_games (\<lambda>p s. Inr []) \<lparr>year = 2024, month = 11, day = 3\<rparr> 2544)
       = [(2544, ''2024-25''), (2544, ''2023-20'')]
   \<and> take 2 ''2024-25'' \<noteq> last_two_digits 2024"
proof -
  have s: "get_season_string \<lparr>year = 2024, month = 11, day = 3\<rparr> = ''2024-25''"
    by (simp add: get_season_string_def str_int_def str_nat_big str_nat_small
        digit_char_def last_chars_def)
  have n: "str_int 2024 = ''2024''" "str_int 2023 = ''2023''"
    by (simp_all add: str_int_def str_nat_big str_nat_small digit_char_def)
  have h: "get_season_string \<lparr>year = 2024, month = 11, day = 3\<rparr>
           = str_int 2024 @ ''-'' @ ''25''"
    by (simp add: s n)
  show ?thesis
    using h previous_season_key [of "\<lparr>year = 2024, month = 11, day = 3\<rparr>" 2024 "''25''"
        "\<lambda>p s. Inr []" 2544 "[]"]
    by (simp add: s n last_two_digits_def digit_char_def)
qed

subsection \<open>Slot of a position string\<close>

lemma str_contains_char: "str_contains [c] s \<longleftrightarrow> c \<in> set s"
  by (induction s) auto

text \<open>
  Claim C4. simplify\_slot is decided, in order, by the characters of the position
  string alone: "PG" if it contains "G"; else "SF" if it contains "F"; else "C" if it
  contains "C"; otherwise the default "PG". Two strings with the same characters get
  the same slot, and simplify\_slot("Guard-Forward") = "PG" since "G" is tested first.
\<close>

theorem simplify_slot_by_characters:
  "simplify_slot position =
     (if CHR ''G'' \<in> set position then ''PG''
      else if CHR ''F'' \<in> set position then ''SF''
      else if CHR ''C'' \<in> set position then ''C''
      else ''PG'')
   \<and> (set other = set position \<longrightarrow> simplify_slot other = simplify_slot position)
   \<and> simplify_slot ''Guard-Forward'' = ''PG''"
  by (simp add: simplify_slot_def str_contains_char)

theorem simplify_slot_by_characters_witness:
  "set ''Forward-Guard'' = set ''Guard-Forward''
   \<and> simplify_slot ''Forward-Guard'' = ''PG''
   \<and> simplify_slot ''Forward-Center'' = ''SF''
   \<and> simplify_slot ''Center'' = ''C''
   \<and> simplify_slot ''Wing'' = ''PG''"
  using simplify_slot_by_characters [of "''Guard-Forward''" "''Forward-Guard''"]
    simplify_slot_by_characters [of "''Forward-Center''" "[]"]
    simplify_slot_by_characters [of "''Center''" "[]"]
    simplify_slot_by_characters [of "''Wing''" "[]"]
  by auto

subsection \<open>Missing opponent\<close>

text \<open>
  Claim C7. When the team name mapped to the selected opponent is absent from team\_map
  or from the TEAM\_NAME column of the DvP table, the multiplier is not computed and a
  warning is shown in its place; this step raises nothing, and the rest of the display
  (pictures, game table, charts) goes on as it does otherwise: the page shows the
  warning followed by exactly what the rest shows.
\<close>

theorem missing_opponent_warns:
  assumes "map_of team_map opponent_abbr = None
           \<or> (\<exists>team_name. map_of team_map opponent_abbr = Some team_name
                \<and> team_name \<notin> set (map TEAM_NAME dvp_table))"
  shows "show_matchup opponent_abbr dvp_table slot
           guard_avg guard_std forward_avg forward_std center_avg center_std
         = ([St_warning ''Could not find DvP data for selected opponent.''], Inr ())
       \<and> show_all opponent_abbr dvp_table slot
           guard_avg guard_std forward_avg forward_std center_avg center_std
           player_id player_name stats_df pts_line reb_line ast_line min_line
         = (St_warning ''Could not find DvP data for selected opponent.''
              # fst (show_player player_id player_name stats_df
                       pts_line reb_line ast_line min_line),
            snd (show_player player_id player_name stats_df
                   pts_line reb_line ast_line min_line))
       \<and> except_Exception (show_all opponent_abbr dvp_table slot
           guard_avg guard_std forward_avg forward_std center_avg center_std
           player_id player_name stats_df pts_line reb_line ast_line min_line)
         = St_warning ''Could not find DvP data for selected opponent.''
             # except_Exception (show_player player_id player_name stats_df
                                  pts_line reb_line ast_line min_line)"
proof -
  have m: "show_matchup opponent_abbr dvp_table slot
             guard_avg guard_std forward_avg forward_std center_avg center_std
           = ([St_warning ''Could not find DvP data for selected opponent.''], Inr ())"
    using assms by (auto simp: show_matchup_def)
  show ?thesis
    unfolding show_all_def m
    by (simp add: except_Exception_def split: prod.splits sum.splits)
qed

theorem missing_opponent_warns_witness:
  "(map_of team_map ''BOS'' = None
     \<or> (\<exists>team_name. map_of team_map ''BOS'' = Some team_name
          \<and> team_name \<notin> set (map TEAM_NAME
               [\<lparr>TEAM_NAME = ''Atlanta Hawks'', Guard_Pts_Allowed = 50,
                 Forward_Pts_Allowed = 45, Center_Pts_Allowed = 20\<rparr>])))
   \<and> show_matchup ''BOS''
        [\<lparr>TEAM_NAME = ''Atlanta Hawks'', Guard_Pts_Allowed = 50,
          Forward_Pts_Allowed = 45, Center_Pts_Allowed = 20\<rparr>] ''PG'' 48 4 44 4 21 2
      = ([St_warning ''Could not find DvP data for selected opponent.''], Inr ())
   \<and> snd (show_all ''BOS''
        [\<lparr>TEAM_NAME = ''Atlanta Hawks'', Guard_Pts_Allowed = 50,
          Forward_Pts_Allowed = 45, Center_Pts_Allowed = 20\<rparr>] ''PG'' 48 4 44 4 21 2
        2544 ''LeBron James''
        [\<lparr>GAME_DATE = 20000, MATCHUP = ''LAL vs. BOS'', PTS = 25, REB = 7, AST = 8,
          MINUTES = 35\<rparr>] 20 5 5 30) = Inr ()"
proof -
  have h: "map_of team_map ''BOS'' = None
     \<or> (\<exists>team_name. map_of team_map ''BOS'' = Some team_name
          \<and> team_name \<notin> set (map TEAM_NAME
               [\<lparr>TEAM_NAME = ''Atlanta Hawks'', Guard_Pts_Allowed = 50,
                 Forward_Pts_Allowed = 45, Center_Pts_Allowed = 20\<rparr>]))"
    by (simp add: team_map_def)
  have p: "snd (show_player 2544 ''LeBron James''
        [\<lparr>GAME_DATE = 20000, MATCHUP = ''LAL vs. BOS'', PTS = 25, REB = 7, AST = 8,
          MINUTES = 35\<rparr>] 20 5 5 30) = Inr ()"
    by (simp add: show_player_def Let_def stat_chart_def pct_above_def column_def
        split: prod.splits)
  show ?thesis
    using h p missing_opponent_warns [OF h, of "''PG''" 48 4 44 4 21 2 2544 "''LeBron James''"
        "[\<lparr>GAME_DATE = 20000, MATCHUP = ''LAL vs. BOS'', PTS = 25, REB = 7, AST = 8,
          MINUTES = 35\<rparr>]" 20 5 5 30]
    by simp
qed

subsection \<open>Strictly over the line\<close>

text \<open>
  Claim C10. The OverLine flag of stat\_chart and the percentage of pct\_above both
  test stat > line strictly: a game whose statistic equals the line is flagged as not
  over the line, and it is not counted among the games over the line in the reported
  percentage (it still counts in the number of games the percentage is taken of).
\<close>

theorem over_line_is_strict:
  assumes "column stat = Inr f"
  shows "(\<exists>ch. stat_chart df stat line = Inr ch
            \<and> OverLine ch = map (\<lambda>g. line < f g) df
            \<and> (\<forall>i < length df. f (df ! i) = line \<longrightarrow> OverLine ch ! i = False))
       \<and> pct_above df stat line =
           Inr (if df = [] then None
                else Some (real (card {i. i < length df \<and> line < f (df ! i)})
                           / real (length df) * 100))
       \<and> (f g = line \<longrightarrow>
            pct_above (g # df) stat line =
              Inr (Some (real (card {i. i < length df \<and> line < f (df ! i)})
                         / real (Suc (length df)) * 100)))"
proof (intro conjI impI)
  show "\<exists>ch. stat_chart df stat line = Inr ch
            \<and> OverLine ch = map (\<lambda>g. line < f g) df
            \<and> (\<forall>i < length df. f (df ! i) = line \<longrightarrow> OverLine ch ! i = False)"
    by (simp add: stat_chart_def assms Let_def)
next
  show "pct_above df stat line =
           Inr (if df = [] then None
                else Some (real (card {i. i < length df \<and> line < f (df ! i)})
                           / real (length df) * 100))"
    by (simp add: pct_above_def assms length_filter_conv_card)
next
  assume "f g = line"
  then show "pct_above (g # df) stat line =
              Inr (Some (real (card {i. i < length df \<and> line < f (df ! i)})
                         / real (Suc (length df)) * 100))"
    by (simp add: pct_above_def assms length_filter_conv_card)
qed

theorem over_line_is_strict_witness:
  "column ''PTS'' = Inr PTS
   \<and> PTS \<lparr>GAME_DATE = 20001, MATCHUP = ''LAL @ BOS'', PTS = 20, REB = 7, AST = 8,
           MINUTES = 35\<rparr> = 20
   \<and> pct_above
       [\<lparr>GAME_DATE = 20001, MATCHUP = ''LAL @ BOS'', PTS = 20, REB = 7, AST = 8, MINUTES = 35\<rparr>,
        \<lparr>GAME_DATE = 20000, MATCHUP = ''LAL vs. NYK'', PTS = 25, REB = 3, AST = 9,
          MINUTES = 33\<rparr>] ''PTS'' 20 = Inr (Some 50)
   \<and> (\<exists>ch. stat_chart
       [\<lparr>GAME_DATE = 20001, MATCHUP = ''LAL @ BOS'', PTS = 20, REB = 7, AST = 8, MINUTES = 35\<rparr>,
        \<lparr>GAME_DATE = 20000, MATCHUP = ''LAL vs. NYK'', PTS = 25, REB = 3, AST = 9,
          MINUTES = 33\<rparr>] ''PTS'' 20 = Inr ch \<and> OverLine ch = [False, True])"
proof -
  have h: "column ''PTS'' = Inr PTS" by (simp add: column_def)
  have p: "pct_above
       [\<lparr>GAME_DATE = 20001, MATCHUP = ''LAL @ BOS'', PTS = 20, REB = 7, AST = 8, MINUTES = 35\<rparr>,
        \<lparr>GAME_DATE = 20000, MATCHUP = ''LAL vs. NYK'', PTS = 25, REB = 3, AST = 9,
          MINUTES = 33\<rparr>] ''PTS'' 20 = Inr (Some 50)"
    by (simp add: pct_above_def h)
  show ?thesis
    using h p over_line_is_strict [OF h,
        where df = "[\<lparr>GAME_DATE = 20001, MATCHUP = ''LAL @ BOS'', PTS = 20, REB = 7, AST = 8,
              MINUTES = 35\<rparr>,
             \<lparr>GAME_DATE = 20000, MATCHUP = ''LAL vs. NYK'', PTS = 25, REB = 3, AST = 9,
              MINUTES = 33\<rparr>]" and line = 20
          and g = "\<lparr>GAME_DATE = 20001, MATCHUP = ''LAL @ BOS'', PTS = 20, REB = 7, AST = 8,
              MINUTES = 35\<rparr>"]
    by auto
qed

subsection \<open>What the page shows as the multiplier\<close>

lemma dvp_loop_cong:
  assumes "\<forall>r. season r = ''2024-25'' \<longrightarrow> A r = A' r"
  shows "dvp_loop A ps = dvp_loop A' ps"
proof (induction ps)
  case Nil
  show ?case by simp
next
  case (Cons pos rest)
  have "A \<lparr>measure_type_detailed_defense = ''Opponent'', per_mode_detailed = ''PerGame'',
            player_position_abbreviation_nullable = pos, season = ''2024-25''\<rparr>
        = A' \<lparr>measure_type_detailed_defense = ''Opponent'', per_mode_detailed = ''PerGame'',
            player_position_abbreviation_nullable = pos, season = ''2024-25''\<rparr>"
    using assms by simp
  then show ?case using Cons by (simp add: Let_def split: sum.splits)
qed

lemma get_dvp_table_cong:
  assumes "\<forall>r. season r = ''2024-25'' \<longrightarrow> A r = A' r"
  shows "get_dvp_table A P = get_dvp_table A' P"
  using dvp_loop_cong [OF assms] by (simp add: get_dvp_table_def)

lemma show_stats_no_metric: "St_metric l m \<notin> set (fst (show_stats df xs))"
proof (induction xs)
  case Nil
  show ?case by simp
next
  case (Cons x xs)
  obtain stat line where x: "x = (stat, line)" by (cases x) blast
  obtain out r where o: "show_stats df xs = (out, r)" by (cases "show_stats df xs") blast
  have "St_metric l m \<notin> set out" using Cons by (simp add: o)
  then show ?case
    by (simp add: x o split: sum.splits)
qed

lemma show_player_no_metric:
  "St_metric l m \<notin> set (fst (show_player player_id player_name stats_df pl rl al ml))"
proof (cases stats_df)
  case Nil
  then show ?thesis by (simp add: show_player_def)
next
  case (Cons first rest)
  obtain out r where o: "show_stats (first # rest)
      [(''PTS'', pl), (''REB'', rl), (''AST'', al), (''MIN'', ml)] = (out, r)"
    by (cases "show_stats (first # rest)
      [(''PTS'', pl), (''REB'', rl), (''AST'', al), (''MIN'', ml)]") blast
  have "St_metric l m \<notin> set (fst (show_stats (first # rest)
      [(''PTS'', pl), (''REB'', rl), (''AST'', al), (''MIN'', ml)]))"
    by (rule show_stats_no_metric)
  then have "St_metric l m \<notin> set out"
    unfolding o by simp
  then show ?thesis
    unfolding Cons show_player_def Let_def o
    by (simp split: option.splits)
qed

lemma show_matchup_shapes:
  "fst (show_matchup opp tbl slot ga gs fa fs ca cs) = []
   \<or> fst (show_matchup opp tbl slot ga gs fa fs ca cs)
       = [St_warning ''Could not find DvP data for selected opponent.'']
   \<or> (\<exists>v. fst (show_matchup opp tbl slot ga gs fa fs ca cs)
            = [St_metric ''Matchup Multiplier'' v])"
  by (auto simp: show_matchup_def split: option.splits list.splits sum.splits)

lemma show_all_metric:
  assumes "St_metric l m \<in> set (fst (show_all opp tbl slot ga gs fa fs ca cs
                                       pid pname df pl rl al ml))"
  shows "fst (show_matchup opp tbl slot ga gs fa fs ca cs) = [St_metric l m]"
proof -
  obtain out r where o: "show_matchup opp tbl slot ga gs fa fs ca cs = (out, r)"
    by (cases "show_matchup opp tbl slot ga gs fa fs ca cs") blast
  have "St_metric l m \<in> set out"
    using assms show_player_no_metric [of l m pid pname df pl rl al ml]
    unfolding show_all_def o
    by (auto split: sum.splits prod.splits)
  then show ?thesis
    using show_matchup_shapes [of opp tbl slot ga gs fa fs ca cs]
    by (auto simp: o)
qed

lemma except_Exception_metric:
  "St_metric l m \<in> set (except_Exception run) \<longleftrightarrow> St_metric l m \<in> set (fst run)"
  by (cases run) (auto simp: except_Exception_def split: sum.splits)

lemma fetch_stats_metric:
  assumes "St_metric l m \<in> set (fetch_stats F G C A P series_mean series_std today
                                   player_name opp pl rl al ml)"
  shows "\<exists>player_id others position dvp_table.
           F player_name = player_id # others
           \<and> C player_id = Inr position
           \<and> snd (get_dvp_table A P) = Inr dvp_table
           \<and> fst (show_matchup opp dvp_table (simplify_slot position)
                    (series_mean (map Guard_Pts_Allowed dvp_table))
                    (series_std (map Guard_Pts_Allowed dvp_table))
                    (series_mean (map Forward_Pts_Allowed dvp_table))
                    (series_std (map Forward_Pts_Allowed dvp_table))
                    (series_mean (map Center_Pts_Allowed dvp_table))
                    (series_std (map Center_Pts_Allowed dvp_table)))
              = [St_metric l m]"
proof (cases "F player_name")
  case Nil
  then show ?thesis using assms by (simp add: fetch_stats_def)
next
  case (Cons player_id others)
  show ?thesis
  proof (cases "player_id = 0")
    case True
    then show ?thesis using assms Cons by (simp add: fetch_stats_def)
  next
    case False
    let ?body = "case snd (get_last_10_games G today player_id) of
               Inl e \<Rightarrow> ([], Inl e)
             | Inr stats_df \<Rightarrow>
                (case C player_id of
                   Inl e \<Rightarrow> ([], Inl e)
                 | Inr position \<Rightarrow>
                    (let slot = simplify_slot position
                     in case snd (get_dvp_table A P) of
                          Inl e \<Rightarrow> ([], Inl e)
                        | Inr dvp_table \<Rightarrow>
                            show_all opp dvp_table slot
                              (series_mean (map Guard_Pts_Allowed dvp_table))
                              (series_std (map Guard_Pts_Allowed dvp_table))
                              (series_mean (map Forward_Pts_Allowed dvp_table))
                              (series_std (map Forward_Pts_Allowed dvp_table))
                              (series_mean (map Center_Pts_Allowed dvp_table))
                              (series_std (map Center_Pts_Allowed dvp_table))
                              player_id player_name stats_df pl rl al ml))"
    have "St_metric l m \<in> set (except_Exception ?body)"
      using assms Cons False by (simp add: fetch_stats_def)
    then have b: "St_metric l m \<in> set (fst ?body)"
      by (simp only: except_Exception_metric)
    then obtain stats_df position dvp_table where
      c: "C player_id = Inr position" and
      t: "snd (get_dvp_table A P) = Inr dvp_table" and
      a: "St_metric l m \<in> set (fst (show_all opp dvp_table (simplify_slot position)
                              (series_mean (map Guard_Pts_Allowed dvp_table))
                              (series_std (map Guard_Pts_Allowed dvp_table))
                              (series_mean (map Forward_Pts_Allowed dvp_table))
                              (series_std (map Forward_Pts_Allowed dvp_table))
                              (series_mean (map Center_Pts_Allowed dvp_table))
                              (series_std (map Center_Pts_Allowed dvp_table))
                              player_id player_name stats_df pl rl al ml))"
      by (auto simp: Let_def split: sum.splits)
    show ?thesis
      using Cons c t show_all_metric [OF a] by blast
  qed
qed

text \<open>
  Claim C9. get\_dvp\_table asks for the league's defensive statistics of the fixed
  season '2024-25' for the position groups 'G', 'F' and 'C': every request it makes
  carries that season, whatever the endpoint answers, and when the endpoint answers the
  requests of that season the three groups are requested in this order. The function
  has no argument for the date or the season string, and what it returns depends on the
  endpoint's answers for '2024-25' alone. Hence the matchup multiplier is computed from
  the 2024-25 data whenever the dashboard runs: a multiplier that the page shows is the
  one lines 208-217 compute from the table get\_dvp\_table returned, and two runs of
  the page for the same player and opponent, on any two dates and with endpoints that
  agree on the 2024-25 requests, show the same multiplier.
\<close>

theorem get_dvp_table_season:
  "(\<forall>r \<in> set (fst (get_dvp_table LeagueDashTeamStats pivot)).
      season r = ''2024-25'' \<and> measure_type_detailed_defense r = ''Opponent''
      \<and> per_mode_detailed r = ''PerGame''
      \<and> player_position_abbreviation_nullable r \<in> {''G'', ''F'', ''C''})
   \<and> ((\<forall>r. season r = ''2024-25'' \<longrightarrow> (\<exists>df. LeagueDashTeamStats r = Inr df)) \<longrightarrow>
        map (\<lambda>r. (player_position_abbreviation_nullable r, season r))
            (fst (get_dvp_table LeagueDashTeamStats pivot))
        = [(''G'', ''2024-25''), (''F'', ''2024-25''), (''C'', ''2024-25'')])
   \<and> ((\<forall>r. season r = ''2024-25'' \<longrightarrow> LeagueDashTeamStats r = LeagueDashTeamStats' r) \<longrightarrow>
        get_dvp_table LeagueDashTeamStats pivot = get_dvp_table LeagueDashTeamStats' pivot)
   \<and> (St_metric label m \<in> set (fetch_stats find_players_by_full_name PlayerGameLog
                                   CommonPlayerInfo LeagueDashTeamStats pivot
                                   series_mean series_std today player_name opponent_abbr
                                   pts_line reb_line ast_line min_line) \<longrightarrow>
        (\<exists>player_id others position dvp_table.
           find_players_by_full_name player_name = player_id # others
           \<and> CommonPlayerInfo player_id = Inr position
           \<and> snd (get_dvp_table LeagueDashTeamStats pivot) = Inr dvp_table
           \<and> fst (show_matchup opponent_abbr dvp_table (simplify_slot position)
                    (series_mean (map Guard_Pts_Allowed dvp_table))
                    (series_std (map Guard_Pts_Allowed dvp_table))
                    (series_mean (map Forward_Pts_Allowed dvp_table))
                    (series_std (map Forward_Pts_Allowed dvp_table))
                    (series_mean (map Center_Pts_Allowed dvp_table))
                    (series_std (map Center_Pts_Allowed dvp_table)))
              = [St_metric label m]))
   \<and> ((\<forall>r. season r = ''2024-25'' \<longrightarrow> LeagueDashTeamStats r = LeagueDashTeamStats' r)
        \<and> St_metric label m \<in> set (fetch_stats find_players_by_full_name PlayerGameLog
                                   CommonPlayerInfo LeagueDashTeamStats pivot
                                   series_mean series_std today player_name opponent_abbr
                                   pts_line reb_line ast_line min_line)
        \<and> St_metric label' m' \<in> set (fetch_stats find_players_by_full_name PlayerGameLog'
                                   CommonPlayerInfo LeagueDashTeamStats' pivot
                                   series_mean series_std today' player_name opponent_abbr
                                   pts_line' reb_line' ast_line' min_line') \<longrightarrow>
        m = m')"
proof (intro conjI impI)
  show "\<forall>r \<in> set (fst (get_dvp_table LeagueDashTeamStats pivot)).
      season r = ''2024-25'' \<and> measure_type_detailed_defense r = ''Opponent''
      \<and> per_mode_detailed r = ''PerGame''
      \<and> player_position_abbreviation_nullable r \<in> {''G'', ''F'', ''C''}"
    by (auto simp: get_dvp_table_def Let_def split: sum.splits prod.splits)
next
  assume a: "\<forall>r. season r = ''2024-25'' \<longrightarrow> (\<exists>df. LeagueDashTeamStats r = Inr df)"
  have ok: "\<And>pos. \<exists>df. LeagueDashTeamStats
              \<lparr>measure_type_detailed_defense = ''Opponent'', per_mode_detailed = ''PerGame'',
               player_position_abbreviation_nullable = pos, season = ''2024-25''\<rparr> = Inr df"
    using a by simp
  show "map (\<lambda>r. (player_position_abbreviation_nullable r, season r))
            (fst (get_dvp_table LeagueDashTeamStats pivot))
        = [(''G'', ''2024-25''), (''F'', ''2024-25''), (''C'', ''2024-25'')]"
    using ok [of "''G''"] ok [of "''F''"] ok [of "''C''"]
    by (auto simp: get_dvp_table_def Let_def split: sum.splits prod.splits)
next
  assume "\<forall>r. season r = ''2024-25'' \<longrightarrow> LeagueDashTeamStats r = LeagueDashTeamStats' r"
  then show "get_dvp_table LeagueDashTeamStats pivot = get_dvp_table LeagueDashTeamStats' pivot"
    by (rule get_dvp_table_cong)
next
  assume "St_metric label m \<in> set (fetch_stats find_players_by_full_name PlayerGameLog
                                   CommonPlayerInfo LeagueDashTeamStats pivot
                                   series_mean series_std today player_name opponent_abbr
                                   pts_line reb_line ast_line min_line)"
  then show "\<exists>player_id others position dvp_table.
           find_players_by_full_name player_name = player_id # others
           \<and> CommonPlayerInfo player_id = Inr position
           \<and> snd (get_dvp_table LeagueDashTeamStats pivot) = Inr dvp_table
           \<and> fst (show_matchup opponent_abbr dvp_table (simplify_slot position)
                    (series_mean (map Guard_Pts_Allowed dvp_table))
                    (series_std (map Guard_Pts_Allowed dvp_table))
                    (series_mean (map Forward_Pts_Allowed dvp_table))
                    (series_std (map Forward_Pts_Allowed dvp_table))
                    (series_mean (map Center_Pts_Allowed dvp_table))
                    (series_std (map Center_Pts_Allowed dvp_table)))
              = [St_metric label m]"
    by (rule fetch_stats_metric)
next
  assume h: "(\<forall>r. season r = ''2024-25'' \<longrightarrow> LeagueDashTeamStats r = LeagueDashTeamStats' r)
        \<and> St_metric label m \<in> set (fetch_stats find_players_by_full_name PlayerGameLog
                                   CommonPlayerInfo LeagueDashTeamStats pivot
                                   series_mean series_std today player_name opponent_abbr
                                   pts_line reb_line ast_line min_line)
        \<and> St_metric label' m' \<in> set (fetch_stats find_players_by_full_name PlayerGameLog'
                                   CommonPlayerInfo LeagueDashTeamStats' pivot
                                   series_mean series_std today' player_name opponent_abbr
                                   pts_line' reb_line' ast_line' min_line')"
  have t: "get_dvp_table LeagueDashTeamStats' pivot = get_dvp_table LeagueDashTeamStats pivot"
    using h get_dvp_table_cong [of LeagueDashTeamStats LeagueDashTeamStats' pivot] by simp
  from h have m1: "St_metric label m \<in> set (fetch_stats find_players_by_full_name PlayerGameLog
                                   CommonPlayerInfo LeagueDashTeamStats pivot
                                   series_mean series_std today player_name opponent_abbr
                                   pts_line reb_line ast_line min_line)" by simp
  from h have m2: "St_metric label' m' \<in> set (fetch_stats find_players_by_full_name PlayerGameLog'
                                   CommonPlayerInfo LeagueDashTeamStats' pivot
                                   series_mean series_std today' player_name opponent_abbr
                                   pts_line' reb_line' ast_line' min_line')" by simp
  show "m = m'"
    using fetch_stats_metric [OF m1] fetch_stats_metric [OF m2] unfolding t
    by auto
qed

theorem get_dvp_table_season_witness:
  "St_metric ''Matchup Multiplier'' 1.25
     \<in> set (fetch_stats (\<lambda>n. [2544])
          (\<lambda>p s. Inr [\<lparr>GAME_DATE = 20000, MATCHUP = ''LAL vs. BOS'', PTS = 25, REB = 7,
                        AST = 8, MINUTES = 35\<rparr>])
          (\<lambda>p. Inr ''Guard'')
          (\<lambda>r. Inr [(''Boston Celtics'', 53)])
          (\<lambda>rows. Inr (map (\<lambda>(team, pos, pts).
                           \<lparr>TEAM_NAME = team, Guard_Pts_Allowed = pts,
                            Forward_Pts_Allowed = pts, Center_Pts_Allowed = pts\<rparr>)
                      (filter (\<lambda>(team, pos, pts). pos = ''G'') rows)))
          (\<lambda>xs. 48) (\<lambda>xs. 4)
          \<lparr>year = 2024, month = 11, day = 3\<rparr> ''LeBron James'' ''BOS'' 20 5 5 30)
   \<and> St_metric ''Matchup Multiplier'' 1.25
     \<in> set (fetch_stats (\<lambda>n. [2544])
          (\<lambda>p s. Inr [\<lparr>GAME_DATE = 22000, MATCHUP = ''LAL @ NYK'', PTS = 18, REB = 4,
                        AST = 6, MINUTES = 30\<rparr>])
          (\<lambda>p. Inr ''Guard'')
          (\<lambda>r. if season r = ''2024-25'' then Inr [(''Boston Celtics'', 53)]
                else Inl (FetchError ''no data''))
          (\<lambda>rows. Inr (map (\<lambda>(team, pos, pts).
                           \<lparr>TEAM_NAME = team, Guard_Pts_Allowed = pts,
                            Forward_Pts_Allowed = pts, Center_Pts_Allowed = pts\<rparr>)
                      (filter (\<lambda>(team, pos, pts). pos = ''G'') rows)))
          (\<lambda>xs. 48) (\<lambda>xs. 4)
          \<lparr>year = 2031, month = 2, day = 1\<rparr> ''LeBron James'' ''BOS'' 25 6 6 32)
   \<and> map (\<lambda>r. (player_position_abbreviation_nullable r, season r))
       (fst (get_dvp_table (\<lambda>r. Inr [(''Boston Celtics'', 53)])
          (\<lambda>rows. Inr (map (\<lambda>(team, pos, pts).
                           \<lparr>TEAM_NAME = team, Guard_Pts_Allowed = pts,
                            Forward_Pts_Allowed = pts, Center_Pts_Allowed = pts\<rparr>)
                      (filter (\<lambda>(team, pos, pts). pos = ''G'') rows)))))
     = [(''G'', ''2024-25''), (''F'', ''2024-25''), (''C'', ''2024-25'')]"
proof -
  let ?G = "\<lambda>(p::int) (s::string). Inr [\<lparr>GAME_DATE = 20000, MATCHUP = ''LAL vs. BOS'',
              PTS = 25, REB = 7, AST = 8, MINUTES = 35\<rparr>] :: error + game list"
  let ?G' = "\<lambda>(p::int) (s::string). Inr [\<lparr>GAME_DATE = 22000, MATCHUP = ''LAL @ NYK'',
              PTS = 18, REB = 4, AST = 6, MINUTES = 30\<rparr>] :: error + game list"
  let ?A = "\<lambda>r::request. Inr [(''Boston Celtics'', 53)] :: error + (string \<times> real) list"
  let ?A' = "\<lambda>r::request. if season r = ''2024-25'' then Inr [(''Boston Celtics'', 53)]
                else Inl (FetchError ''no data'') :: error + (string \<times> real) list"
  let ?P = "\<lambda>rows. Inr (map (\<lambda>(team, pos, pts).
                           \<lparr>TEAM_NAME = team, Guard_Pts_Allowed = pts,
                            Forward_Pts_Allowed = pts, Center_Pts_Allowed = pts\<rparr>)
                      (filter (\<lambda>(team, pos, pts). pos = ''G'') rows))
            :: error + dvp_row list"
  have s: "get_season_string \<lparr>year = 2024, month = 11, day = 3\<rparr> = ''2024-25''"
    "get_season_string \<lparr>year = 2031, month = 2, day = 1\<rparr> = ''2030-31''"
    by (simp_all add: get_season_string_def str_int_def str_nat_big str_nat_small
        digit_char_def last_chars_def)
  have n: "str_int 2023 = ''2023''" "str_int 2029 = ''2029''"
    by (simp_all add: str_int_def str_nat_big str_nat_small digit_char_def)
  have g: "snd (get_last_10_games ?G \<lparr>year = 2024, month = 11, day = 3\<rparr> 2544)
           = Inr [\<lparr>GAME_DATE = 20000, MATCHUP = ''LAL vs. BOS'', PTS = 25, REB = 7,
                   AST = 8, MINUTES = 35\<rparr>,
                  \<lparr>GAME_DATE = 20000, MATCHUP = ''LAL vs. BOS'', PTS = 25, REB = 7,
                   AST = 8, MINUTES = 35\<rparr>]"
    "snd (get_last_10_games ?G' \<lparr>year = 2031, month = 2, day = 1\<rparr> 2544)
           = Inr [\<lparr>GAME_DATE = 22000, MATCHUP = ''LAL @ NYK'', PTS = 18, REB = 4,
                   AST = 6, MINUTES = 30\<rparr>,
                  \<lparr>GAME_DATE = 22000, MATCHUP = ''LAL @ NYK'', PTS = 18, REB = 4,
                   AST = 6, MINUTES = 30\<rparr>]"
    by (simp_all add: get_last_10_games_def s n py_int_def digit_val_def)
  have t: "get_dvp_table ?A ?P =
             ([\<lparr>measure_type_detailed_defense = ''Opponent'', per_mode_detailed = ''PerGame'',
                player_position_abbreviation_nullable = ''G'', season = ''2024-25''\<rparr>,
               \<lparr>measure_type_detailed_defense = ''Opponent'', per_mode_detailed = ''PerGame'',
                player_position_abbreviation_nullable = ''F'', season = ''2024-25''\<rparr>,
               \<lparr>measure_type_detailed_defense = ''Opponent'', per_mode_detailed = ''PerGame'',
                player_position_abbreviation_nullable = ''C'', season = ''2024-25''\<rparr>],
              Inr [\<lparr>TEAM_NAME = ''Boston Celtics'', Guard_Pts_Allowed = 53,
                    Forward_Pts_Allowed = 53, Center_Pts_Allowed = 53\<rparr>])"
    "get_dvp_table ?A' ?P = get_dvp_table ?A ?P"
    by (simp_all add: get_dvp_table_def)
  have m: "show_matchup ''BOS'' [\<lparr>TEAM_NAME = ''Boston Celtics'', Guard_Pts_Allowed = 53,
                    Forward_Pts_Allowed = 53, Center_Pts_Allowed = 53\<rparr>]
             (simplify_slot ''Guard'') 48 4 48 4 48 4
           = ([St_metric ''Matchup Multiplier'' 1.25], Inr ())"
    by (simp add: show_matchup_def team_map_def simplify_slot_def get_matchup_score_def
        matchup_multiplier_def truediv_def multiplier_bands_def)
  have e1: "St_metric ''Matchup Multiplier'' 1.25
     \<in> set (fetch_stats (\<lambda>n. [2544]) ?G (\<lambda>p. Inr ''Guard'') ?A ?P (\<lambda>xs. 48) (\<lambda>xs. 4)
          \<lparr>year = 2024, month = 11, day = 3\<rparr> ''LeBron James'' ''BOS'' 20 5 5 30)"
    unfolding fetch_stats_def
    by (simp add: g t m show_all_def except_Exception_def split: prod.splits sum.splits)
  have e2: "St_metric ''Matchup Multiplier'' 1.25
     \<in> set (fetch_stats (\<lambda>n. [2544]) ?G' (\<lambda>p. Inr ''Guard'') ?A' ?P (\<lambda>xs. 48) (\<lambda>xs. 4)
          \<lparr>year = 2031, month = 2, day = 1\<rparr> ''LeBron James'' ''BOS'' 25 6 6 32)"
    unfolding fetch_stats_def t(2)
    by (simp add: g t(1) m show_all_def except_Exception_def split: prod.splits sum.splits)
  have h: "\<forall>r. season r = ''2024-25'' \<longrightarrow> ?A r = ?A' r"
    by simp
  have r: "map (\<lambda>r. (player_position_abbreviation_nullable r, season r))
             (fst (get_dvp_table ?A ?P))
           = [(''G'', ''2024-25''), (''F'', ''2024-25''), (''C'', ''2024-25'')]"
    by (simp add: t(1))
  show ?thesis
    using e1 e2 h r
      get_dvp_table_season [where LeagueDashTeamStats = ?A and LeagueDashTeamStats' = ?A'
        and pivot = ?P and label = "''Matchup Multiplier''" and m = "1.25"
        and label' = "''Matchup Multiplier''" and m' = "1.25"
        and find_players_by_full_name = "\<lambda>n. [2544]" and PlayerGameLog = ?G
        and PlayerGameLog' = ?G' and CommonPlayerInfo = "\<lambda>p. Inr ''Guard''"
        and series_mean = "\<lambda>xs. 48" and series_std = "\<lambda>xs. 4"
        and today = "\<lparr>year = 2024, month = 11, day = 3\<rparr>"
        and today' = "\<lparr>year = 2031, month = 2, day = 1\<rparr>"
        and player_name = "''LeBron James''" and opponent_abbr = "''BOS''"
        and pts_line = 20 and reb_line = 5 and ast_line = 5 and min_line = 30
        and pts_line' = 25 and reb_line' = 6 and ast_line' = 6 and min_line' = 32]
    by blast
qed

subsection \<open>A standard deviation of zero\<close>

lemma team_map_nonempty: "map_of team_map abbr = Some team_name \<Longrightarrow> team_name \<noteq> []"
  by (auto simp: team_map_def split: if_splits)

text \<open>
  Claim C6, as stated: matchup\_multiplier divides by std with no guard, and when
  std = 0 the division is undefined (the error branch of a guarded division is
  reached), so std \<noteq> 0 is a precondition of the caller. The division is unguarded, but
  on the page its operands are NumPy scalars, for which a zero divisor raises nothing:
  with pts\_allowed = avg = 100 and std = 0 the z-score is nan and the function
  returns 1.00, with pts\_allowed = 110 it is inf and the function returns 1.25, and
  for an opponent whose guard column equals the league mean the page shows the
  multiplier 1.00.
\<close>

theorem zero_std_returns_counterexample:
  "matchup_multiplier numpy_float64 100 100 0 = Inr 1.00
   \<and> matchup_multiplier numpy_float64 110 100 0 = Inr 1.25
   \<and> show_matchup ''BOS''
        [\<lparr>TEAM_NAME = ''Boston Celtics'', Guard_Pts_Allowed = 50,
          Forward_Pts_Allowed = 45, Center_Pts_Allowed = 20\<rparr>] ''PG'' 50 0 45 0 20 0
      = ([St_metric ''Matchup Multiplier'' 1.00], Inr ())"
  by (simp add: show_matchup_def team_map_def get_matchup_score_def
      matchup_multiplier_def truediv_def multiplier_bands_def)

text \<open>
  Claim C6, amended. matchup\_multiplier divides by std with no guard of its own. When
  std = 0 and the arguments are built-in numbers, the division raises
  ZeroDivisionError and no multiplier is returned. When they are NumPy scalars, as on
  the page, nothing is raised: the z-score is inf, -inf or nan and the function returns
  1.25 if pts\_allowed > avg, 0.85 if pts\_allowed < avg and 1.00 if they are equal;
  the page does not test std either and shows that number as the multiplier of a guard.
\<close>

theorem zero_std_unguarded:
  "matchup_multiplier builtin_float pts_allowed avg 0 = Inl ZeroDivisionError
   \<and> matchup_multiplier numpy_float64 pts_allowed avg 0 =
       Inr (if pts_allowed > avg then 1.25 else if pts_allowed < avg then 0.85 else 1.00)
   \<and> (map_of team_map opponent_abbr = Some (TEAM_NAME row) \<longrightarrow>
        show_matchup opponent_abbr (row # others) ''PG''
          guard_avg 0 forward_avg forward_std center_avg center_std
        = ([St_metric ''Matchup Multiplier''
              (if Guard_Pts_Allowed row > guard_avg then 1.25
               else if Guard_Pts_Allowed row < guard_avg then 0.85 else 1.00)], Inr ()))"
proof (intro conjI impI)
  show "matchup_multiplier builtin_float pts_allowed avg 0 = Inl ZeroDivisionError"
    by (rule matchup_multiplier_zero(1))
next
  show "matchup_multiplier numpy_float64 pts_allowed avg 0 =
       Inr (if pts_allowed > avg then 1.25 else if pts_allowed < avg then 0.85 else 1.00)"
    by (rule matchup_multiplier_zero(2))
next
  assume a: "map_of team_map opponent_abbr = Some (TEAM_NAME row)"
  have ne: "TEAM_NAME row \<noteq> []" using a by (rule team_map_nonempty)
  show "show_matchup opponent_abbr (row # others) ''PG''
          guard_avg 0 forward_avg forward_std center_avg center_std
        = ([St_metric ''Matchup Multiplier''
              (if Guard_Pts_Allowed row > guard_avg then 1.25
               else if Guard_Pts_Allowed row < guard_avg then 0.85 else 1.00)], Inr ())"
    unfolding show_matchup_def a
    by (simp add: ne get_matchup_score_def matchup_multiplier_zero(2))
qed

theorem zero_std_unguarded_witness:
  "map_of team_map ''BOS''
     = Some (TEAM_NAME \<lparr>TEAM_NAME = ''Boston Celtics'', Guard_Pts_Allowed = 53,
                         Forward_Pts_Allowed = 45, Center_Pts_Allowed = 20\<rparr>)
   \<and> show_matchup ''BOS''
        [\<lparr>TEAM_NAME = ''Boston Celtics'', Guard_Pts_Allowed = 53,
          Forward_Pts_Allowed = 45, Center_Pts_Allowed = 20\<rparr>] ''PG'' 48 0 44 4 21 2
      = ([St_metric ''Matchup Multiplier'' 1.25], Inr ())
   \<and> matchup_multiplier builtin_float 53 48 0 = Inl ZeroDivisionError
   \<and> matchup_multiplier numpy_float64 43 48 0 = Inr 0.85"
proof -
  have h: "map_of team_map ''BOS''
     = Some (TEAM_NAME \<lparr>TEAM_NAME = ''Boston Celtics'', Guard_Pts_Allowed = 53,
                         Forward_Pts_Allowed = 45, Center_Pts_Allowed = 20\<rparr>)"
    by (simp add: team_map_def)
  show ?thesis
    using h zero_std_unguarded [where opponent_abbr = "''BOS''"
        and row = "\<lparr>TEAM_NAME = ''Boston Celtics'', Guard_Pts_Allowed = 53,
                         Forward_Pts_Allowed = 45, Center_Pts_Allowed = 20\<rparr>"
        and others = "[]" and guard_avg = 48 and forward_avg = 44 and forward_std = 4
        and center_avg = 21 and center_std = 2 and pts_allowed = 53 and avg = 48]
      zero_std_unguarded [where opponent_abbr = "''BOS''"
        and row = "\<lparr>TEAM_NAME = ''Boston Celtics'', Guard_Pts_Allowed = 53,
                         Forward_Pts_Allowed = 45, Center_Pts_Allowed = 20\<rparr>"
        and others = "[]" and guard_avg = 48 and forward_avg = 44 and forward_std = 4
        and center_avg = 21 and center_std = 2 and pts_allowed = 43 and avg = 48]
    by simp
qed

end
